theory Spec2Isabelle
  imports Main "HOL-Library.Word"
begin

unbundle bit_operations_syntax

section \<open>Values of the EVM\<close>

text \<open>
  The three contracts (\<^verbatim>\<open>AuditRegistry\<close>, \<^verbatim>\<open>ScamDetector\<close>, \<^verbatim>\<open>TokenAnalyzer\<close>) are
  Solidity 0.8 code. An \<^verbatim>\<open>address\<close> is a 160-bit word, \<^verbatim>\<open>uint256\<close> a 256-bit word,
  \<^verbatim>\<open>uint8\<close> and a byte an 8-bit word. A Solidity \<^verbatim>\<open>mapping\<close> is total and reads the zero
  value at a key never written, so it is a total function here.
\<close>

type_synonym address = "160 word"
type_synonym uint256 = "256 word"
type_synonym uint8 = "8 word"
type_synonym byte = "8 word"

subsection \<open>Reverts\<close>

text \<open>
  A failing \<^verbatim>\<open>require\<close> reverts the whole call with its message; checked arithmetic
  reverts with a panic. The constructors stand for the revert reasons of the sources
  (and of the two OpenZeppelin base contracts they inherit from); \<open>revert_message\<close>
  gives the string of each.
\<close>

datatype failure =
    InvalidTokenAddress
  | RiskScoreTooHigh
  | NotAuthorizedAuditor
  | TooManyTokens
  | ReentrantCall
  | CallerIsNotTheOwner
  | ArithmeticOverflow
  | UncaughtCallFailure

fun revert_message :: "failure \<Rightarrow> string" where
  "revert_message InvalidTokenAddress = ''Invalid token address''"
| "revert_message RiskScoreTooHigh = ''Risk score must be <= 100''"
| "revert_message NotAuthorizedAuditor = ''Not authorized auditor''"
| "revert_message TooManyTokens = ''Too many tokens to analyze at once''"
| "revert_message ReentrantCall = ''ReentrancyGuard: reentrant call''"
| "revert_message CallerIsNotTheOwner = ''Ownable: caller is not the owner''"
| "revert_message ArithmeticOverflow = ''panic 0x11''"
| "revert_message UncaughtCallFailure = []"

text \<open>
  The specification groups failures into classes: a \<open>ValidationError\<close> is a malformed
  input (zero address, batch too large, score out of range) and an
  \<open>AuthorizationError\<close> a caller that lacks the required role. The reentrancy revert,
  the arithmetic panic and the failure of an external call that no \<^verbatim>\<open>catch\<close> takes
  belong to neither.
\<close>

datatype error_class = ValidationError | AuthorizationError | OtherFailure

fun error_class_of :: "failure \<Rightarrow> error_class" where
  "error_class_of InvalidTokenAddress = ValidationError"
| "error_class_of RiskScoreTooHigh = ValidationError"
| "error_class_of TooManyTokens = ValidationError"
| "error_class_of NotAuthorizedAuditor = AuthorizationError"
| "error_class_of CallerIsNotTheOwner = AuthorizationError"
| "error_class_of ReentrantCall = OtherFailure"
| "error_class_of ArithmeticOverflow = OtherFailure"
| "error_class_of UncaughtCallFailure = OtherFailure"

text \<open>
  A call on a contract in state \<open>s\<close> either reverts (\<open>Inl\<close>) or returns a value and the
  new state (\<open>Inr\<close>). A revert discards every storage write and every event of the call:
  the state after the call is then the state before it.
\<close>

definition state_after :: "'s \<Rightarrow> failure + ('a \<times> 's) \<Rightarrow> 's" where
  "state_after s r = (case r of Inl f \<Rightarrow> s | Inr (v, s') \<Rightarrow> s')"

subsection \<open>The inherited base contracts\<close>

text \<open>
  \<^verbatim>\<open>Ownable\<close> stores the owner; \<^verbatim>\<open>ReentrancyGuard\<close> stores a status flag. Their sources
  are the OpenZeppelin library's, imported by the contracts: \<^verbatim>\<open>onlyOwner\<close> requires the
  caller to be the owner, \<^verbatim>\<open>nonReentrant\<close> requires the flag not to be set, sets it for
  the duration of the body and clears it afterwards.
\<close>

datatype guard_status = NOT_ENTERED | ENTERED

record ownable =
  contractOwner :: address

record guarded = ownable +
  reentrancyStatus :: guard_status

definition onlyOwner ::
  "address \<Rightarrow> ('z ownable_scheme \<Rightarrow> failure + ('a \<times> 'z ownable_scheme)) \<Rightarrow>
   'z ownable_scheme \<Rightarrow> failure + ('a \<times> 'z ownable_scheme)" where
  "onlyOwner sender body s =
     (if contractOwner s = sender then body s else Inl CallerIsNotTheOwner)"

definition nonReentrant ::
  "('z guarded_scheme \<Rightarrow> failure + ('a \<times> 'z guarded_scheme)) \<Rightarrow>
   'z guarded_scheme \<Rightarrow> failure + ('a \<times> 'z guarded_scheme)" where
  "nonReentrant body s =
     (if reentrancyStatus s = ENTERED then Inl ReentrantCall
      else case body (s\<lparr>reentrancyStatus := ENTERED\<rparr>) of
             Inl f \<Rightarrow> Inl f
           | Inr (v, s') \<Rightarrow> Inr (v, s'\<lparr>reentrancyStatus := NOT_ENTERED\<rparr>))"

section \<open>AuditRegistry\<close>

record AuditRecord =
  rec_tokenAddress :: address
  rec_riskScore :: uint256
  rec_isScam :: bool
  rec_isHoneypot :: bool
  rec_auditTimestamp :: uint256
  rec_auditor :: address
  rec_ipfsHash :: string

record TokenMetrics =
  met_totalTransactions :: uint256
  met_uniqueHolders :: uint256
  met_liquidityUSD :: uint256
  met_liquidityLocked :: bool
  met_lastUpdated :: uint256

datatype registry_event =
    AuditCompleted address address uint256 bool uint256
  | TokenMetricsUpdated address uint256 uint256 uint256

record registry = guarded +
  auditRecords :: "address \<Rightarrow> AuditRecord"
  tokenMetrics :: "address \<Rightarrow> TokenMetrics"
  authorizedAuditors :: "address \<Rightarrow> bool"
  auditCount :: "address \<Rightarrow> uint256"
  registryLog :: "registry_event list"

definition no_AuditRecord :: AuditRecord where
  "no_AuditRecord =
     \<lparr>rec_tokenAddress = 0, rec_riskScore = 0, rec_isScam = False, rec_isHoneypot = False,
      rec_auditTimestamp = 0, rec_auditor = 0, rec_ipfsHash = []\<rparr>"

definition no_TokenMetrics :: TokenMetrics where
  "no_TokenMetrics =
     \<lparr>met_totalTransactions = 0, met_uniqueHolders = 0, met_liquidityUSD = 0,
      met_liquidityLocked = False, met_lastUpdated = 0\<rparr>"

text \<open>The constructor: the deployer owns the registry and is its first authorized auditor.\<close>

definition registry_constructor :: "address \<Rightarrow> registry" where
  "registry_constructor sender =
     \<lparr>contractOwner = sender, reentrancyStatus = NOT_ENTERED,
      auditRecords = (\<lambda>a. no_AuditRecord), tokenMetrics = (\<lambda>a. no_TokenMetrics),
      authorizedAuditors = (\<lambda>a. a = sender), auditCount = (\<lambda>a. 0), registryLog = []\<rparr>"

definition onlyAuthorizedAuditor ::
  "address \<Rightarrow> (registry \<Rightarrow> failure + ('a \<times> registry)) \<Rightarrow> registry \<Rightarrow>
   failure + ('a \<times> registry)" where
  "onlyAuthorizedAuditor sender body s =
     (if authorizedAuditors s sender \<or> sender = contractOwner s then body s
      else Inl NotAuthorizedAuditor)"

definition addAuthorizedAuditor ::
  "registry \<Rightarrow> address \<Rightarrow> address \<Rightarrow> failure + (unit \<times> registry)" where
  "addAuthorizedAuditor s sender auditor =
     onlyOwner sender
       (\<lambda>s. Inr ((), s\<lparr>authorizedAuditors := (authorizedAuditors s)(auditor := True)\<rparr>)) s"

definition removeAuthorizedAuditor ::
  "registry \<Rightarrow> address \<Rightarrow> address \<Rightarrow> failure + (unit \<times> registry)" where
  "removeAuthorizedAuditor s sender auditor =
     onlyOwner sender
       (\<lambda>s. Inr ((), s\<lparr>authorizedAuditors := (authorizedAuditors s)(auditor := False)\<rparr>)) s"

text \<open>
  \<^verbatim>\<open>submitAuditResult\<close>: the modifiers run in the order they are written,
  \<^verbatim>\<open>onlyAuthorizedAuditor\<close> before \<^verbatim>\<open>nonReentrant\<close>, and both before the two
  \<^verbatim>\<open>require\<close>s of the body. \<open>now\<close> is \<^verbatim>\<open>block.timestamp\<close>, \<open>sender\<close> is \<^verbatim>\<open>msg.sender\<close>.
  The increment \<^verbatim>\<open>auditCount[msg.sender]++\<close> is checked.
\<close>

definition submitAuditResult ::
  "uint256 \<Rightarrow> registry \<Rightarrow> address \<Rightarrow> address \<Rightarrow> uint256 \<Rightarrow> bool \<Rightarrow> bool \<Rightarrow> string \<Rightarrow>
   failure + (unit \<times> registry)" where
  "submitAuditResult now s sender tokenAddress riskScore isScam isHoneypot ipfsHash =
     onlyAuthorizedAuditor sender (nonReentrant (\<lambda>s.
       if tokenAddress = 0 then Inl InvalidTokenAddress
       else if \<not> riskScore \<le> 100 then Inl RiskScoreTooHigh
       else if auditCount s sender = - 1 then Inl ArithmeticOverflow
       else Inr ((),
         s\<lparr>auditRecords := (auditRecords s)(tokenAddress :=
              \<lparr>rec_tokenAddress = tokenAddress, rec_riskScore = riskScore,
               rec_isScam = isScam, rec_isHoneypot = isHoneypot,
               rec_auditTimestamp = now, rec_auditor = sender, rec_ipfsHash = ipfsHash\<rparr>),
           auditCount := (auditCount s)(sender := auditCount s sender + 1),
           registryLog := registryLog s @
              [AuditCompleted tokenAddress sender riskScore isScam now]\<rparr>))) s"

definition updateTokenMetrics ::
  "uint256 \<Rightarrow> registry \<Rightarrow> address \<Rightarrow> address \<Rightarrow> uint256 \<Rightarrow> uint256 \<Rightarrow> uint256 \<Rightarrow> bool \<Rightarrow>
   failure + (unit \<times> registry)" where
  "updateTokenMetrics now s sender tokenAddress totalTransactions uniqueHolders liquidityUSD
      liquidityLocked =
     onlyAuthorizedAuditor sender (\<lambda>s.
       Inr ((),
         s\<lparr>tokenMetrics := (tokenMetrics s)(tokenAddress :=
              \<lparr>met_totalTransactions = totalTransactions, met_uniqueHolders = uniqueHolders,
               met_liquidityUSD = liquidityUSD, met_liquidityLocked = liquidityLocked,
               met_lastUpdated = now\<rparr>),
           registryLog := registryLog s @
              [TokenMetricsUpdated tokenAddress totalTransactions uniqueHolders
                 liquidityUSD]\<rparr>)) s"

definition isTokenAudited :: "registry \<Rightarrow> address \<Rightarrow> bool" where
  "isTokenAudited s tokenAddress \<longleftrightarrow> rec_auditTimestamp (auditRecords s tokenAddress) > 0"

section \<open>The pipeline's risk level\<close>

text \<open>
  \<^verbatim>\<open>EnhancedAuditService.performSecurityAnalysis\<close> and \<^verbatim>\<open>AuditService.analyzeSecurity\<close>
  bucket the score with the same expression,
  \<^verbatim>\<open>riskScore < 25 ? 'LOW' : riskScore < 50 ? 'MEDIUM' : riskScore < 75 ? 'HIGH' : 'CRITICAL'\<close>.
  The score is an integer there: \<^verbatim>\<open>parseInt(...) || 0\<close> or \<^verbatim>\<open>Math.floor(...)\<close>.
\<close>

datatype risk_level = LOW | MEDIUM | HIGH | CRITICAL

definition riskLevel :: "int \<Rightarrow> risk_level" where
  "riskLevel riskScore =
     (if riskScore < 25 then LOW
      else if riskScore < 50 then MEDIUM
      else if riskScore < 75 then HIGH
      else CRITICAL)"

section \<open>Keccak-256\<close>

text \<open>
  \<^verbatim>\<open>keccak256\<close> is a builtin of the EVM: the sponge over the permutation Keccak-f[1600]
  with rate 136 bytes, padding byte \<open>0x01\<close> and a 32-byte digest. The state is five
  planes (rows \<open>y = 0..4\<close>) of five 64-bit lanes (columns \<open>x = 0..4\<close>).
\<close>

type_synonym lane = "64 word"
type_synonym plane = "lane \<times> lane \<times> lane \<times> lane \<times> lane"
type_synonym sponge = "plane \<times> plane \<times> plane \<times> plane \<times> plane"

definition rotl64 :: "lane \<Rightarrow> nat \<Rightarrow> lane" where
  "rotl64 w n = push_bit n (take_bit (64 - n) w) OR drop_bit (64 - n) w"

fun xor_plane :: "plane \<Rightarrow> plane \<Rightarrow> plane" where
  "xor_plane (a0, a1, a2, a3, a4) (b0, b1, b2, b3, b4) =
     (a0 XOR b0, a1 XOR b1, a2 XOR b2, a3 XOR b3, a4 XOR b4)"

fun column_parity :: "sponge \<Rightarrow> plane" where
  "column_parity (p0, p1, p2, p3, p4) =
     xor_plane p0 (xor_plane p1 (xor_plane p2 (xor_plane p3 p4)))"

fun theta_effect :: "plane \<Rightarrow> plane" where
  "theta_effect (c0, c1, c2, c3, c4) =
     (c4 XOR rotl64 c1 1, c0 XOR rotl64 c2 1, c1 XOR rotl64 c3 1,
      c2 XOR rotl64 c4 1, c3 XOR rotl64 c0 1)"

fun xor_planes :: "plane \<Rightarrow> sponge \<Rightarrow> sponge" where
  "xor_planes d (p0, p1, p2, p3, p4) =
     (xor_plane p0 d, xor_plane p1 d, xor_plane p2 d, xor_plane p3 d, xor_plane p4 d)"

definition theta :: "sponge \<Rightarrow> sponge" where
  "theta a = xor_planes (theta_effect (column_parity a)) a"

text \<open>The lane at column \<open>x\<close>, row \<open>y\<close> moves to column \<open>y\<close>, row \<open>2x + 3y mod 5\<close>, rotated.\<close>

fun rho_pi :: "sponge \<Rightarrow> sponge" where
  "rho_pi ((a00, a10, a20, a30, a40), (a01, a11, a21, a31, a41), (a02, a12, a22, a32, a42),
           (a03, a13, a23, a33, a43), (a04, a14, a24, a34, a44)) =
     ((a00, rotl64 a11 44, rotl64 a22 43, rotl64 a33 21, rotl64 a44 14),
      (rotl64 a30 28, rotl64 a41 20, rotl64 a02 3, rotl64 a13 45, rotl64 a24 61),
      (rotl64 a10 1, rotl64 a21 6, rotl64 a32 25, rotl64 a43 8, rotl64 a04 18),
      (rotl64 a40 27, rotl64 a01 36, rotl64 a12 10, rotl64 a23 15, rotl64 a34 56),
      (rotl64 a20 62, rotl64 a31 55, rotl64 a42 39, rotl64 a03 41, rotl64 a14 2))"

fun chi_plane :: "plane \<Rightarrow> plane" where
  "chi_plane (b0, b1, b2, b3, b4) =
     (b0 XOR (NOT b1 AND b2), b1 XOR (NOT b2 AND b3), b2 XOR (NOT b3 AND b4),
      b3 XOR (NOT b4 AND b0), b4 XOR (NOT b0 AND b1))"

fun chi :: "sponge \<Rightarrow> sponge" where
  "chi (p0, p1, p2, p3, p4) =
     (chi_plane p0, chi_plane p1, chi_plane p2, chi_plane p3, chi_plane p4)"

fun iota :: "lane \<Rightarrow> sponge \<Rightarrow> sponge" where
  "iota rc ((a00, r0), rest) = ((a00 XOR rc, r0), rest)"

definition keccak_round :: "sponge \<Rightarrow> lane \<Rightarrow> sponge" where
  "keccak_round a rc = iota rc (chi (rho_pi (theta a)))"

definition round_constants :: "lane list" where
  "round_constants =
    [0x0000000000000001, 0x0000000000008082, 0x800000000000808A, 0x8000000080008000,
     0x000000000000808B, 0x0000000080000001, 0x8000000080008081, 0x8000000000008009,
     0x000000000000008A, 0x0000000000000088, 0x0000000080008009, 0x000000008000000A,
     0x000000008000808B, 0x800000000000008B, 0x8000000000008089, 0x8000000000008003,
     0x8000000000008002, 0x8000000000000080, 0x000000000000800A, 0x800000008000000A,
     0x8000000080008081, 0x8000000000008080, 0x0000000080000001, 0x8000000080008008]"

definition keccak_f :: "sponge \<Rightarrow> sponge" where
  "keccak_f a = foldl keccak_round a round_constants"

text \<open>A block of 136 bytes is 17 little-endian lanes, xor-ed into the first 17 lanes.\<close>

definition le_lane :: "byte list \<Rightarrow> lane" where
  "le_lane bs = foldr (\<lambda>b acc. push_bit 8 acc OR ucast b) bs 0"

fun lanes_of :: "byte list \<Rightarrow> lane list" where
  "lanes_of (b0 # b1 # b2 # b3 # b4 # b5 # b6 # b7 # bs) =
     le_lane [b0, b1, b2, b3, b4, b5, b6, b7] # lanes_of bs"
| "lanes_of bs = []"

fun plane_of :: "lane list \<Rightarrow> plane" where
  "plane_of (l0 # l1 # l2 # l3 # l4 # ls) = (l0, l1, l2, l3, l4)"
| "plane_of ls = (0, 0, 0, 0, 0)"

definition block_sponge :: "byte list \<Rightarrow> sponge" where
  "block_sponge blk =
     (let ls = lanes_of blk
      in (plane_of ls, plane_of (drop 5 ls), plane_of (drop 10 ls),
          plane_of (drop 15 ls @ [0, 0, 0]), (0, 0, 0, 0, 0)))"

fun xor_sponge :: "sponge \<Rightarrow> sponge \<Rightarrow> sponge" where
  "xor_sponge (p0, p1, p2, p3, p4) (q0, q1, q2, q3, q4) =
     (xor_plane p0 q0, xor_plane p1 q1, xor_plane p2 q2, xor_plane p3 q3, xor_plane p4 q4)"

definition absorb :: "sponge \<Rightarrow> byte list \<Rightarrow> sponge" where
  "absorb a blk = keccak_f (xor_sponge a (block_sponge blk))"

definition pad101 :: "byte list \<Rightarrow> byte list" where
  "pad101 m =
    (let q = 136 - length m mod 136
     in if q = 1 then m @ [0x81]
        else m @ [0x01] @ replicate (q - 2) 0 @ [0x80])"

fun absorb_blocks :: "nat \<Rightarrow> sponge \<Rightarrow> byte list \<Rightarrow> sponge" where
  "absorb_blocks 0 a p = a"
| "absorb_blocks (Suc n) a p = absorb_blocks n (absorb a (take 136 p)) (drop 136 p)"

text \<open>
  The digest is the first four lanes, each written little-endian; \<^verbatim>\<open>uint256(hash)\<close>
  reads those 32 bytes as one big-endian number.
\<close>

definition be_lane :: "lane \<Rightarrow> uint256" where
  "be_lane w =
     foldl (\<lambda>acc i. push_bit 8 acc OR ucast (ucast (drop_bit (8 * i) w) :: byte)) 0
       [0, 1, 2, 3, 4, 5, 6, 7]"

fun squeeze :: "sponge \<Rightarrow> uint256" where
  "squeeze ((a00, a10, a20, a30, a40), rest) =
     push_bit 192 (be_lane a00) OR push_bit 128 (be_lane a10) OR push_bit 64 (be_lane a20)
       OR be_lane a30"

definition zero_plane :: plane where
  "zero_plane = (0, 0, 0, 0, 0)"

definition keccak256 :: "byte list \<Rightarrow> uint256" where
  "keccak256 m =
    (let p = pad101 m
     in squeeze (absorb_blocks (length p div 136)
                   (zero_plane, zero_plane, zero_plane, zero_plane, zero_plane) p))"

text \<open>
  \<^verbatim>\<open>abi.encodePacked\<close> writes an address as its 20 bytes and a \<^verbatim>\<open>uint256\<close> as its 32
  bytes, most significant byte first, with no padding between the arguments.
\<close>

definition packed_address :: "address \<Rightarrow> byte list" where
  "packed_address a =
     map (\<lambda>k. ucast (drop_bit k a))
       [152, 144, 136, 128, 120, 112, 104, 96, 88, 80, 72, 64, 56, 48, 40, 32, 24, 16, 8, 0]"

definition packed_uint256 :: "uint256 \<Rightarrow> byte list" where
  "packed_uint256 n =
     map (\<lambda>k. ucast (drop_bit k n))
       [248, 240, 232, 224, 216, 208, 200, 192, 184, 176, 168, 160, 152, 144, 136, 128,
        120, 112, 104, 96, 88, 80, 72, 64, 56, 48, 40, 32, 24, 16, 8, 0]"

section \<open>The chain as the contracts see it\<close>

text \<open>
  \<open>blockTimestamp\<close> is \<^verbatim>\<open>block.timestamp\<close>, \<open>extcodesize\<close> the code size of an account.
  The five reads of the token interface are \<^verbatim>\<open>view\<close> calls: they cannot write to the
  caller. On an account that holds code, a read returns data that decodes to a value,
  or reverts, or returns data that does not decode to the declared type.
\<close>

datatype 'a answer = Returns 'a | Reverts | Malformed

record chain =
  blockTimestamp :: uint256
  extcodesize :: "address \<Rightarrow> uint256"
  call_name :: "address \<Rightarrow> string answer"
  call_symbol :: "address \<Rightarrow> string answer"
  call_decimals :: "address \<Rightarrow> uint8 answer"
  call_totalSupply :: "address \<Rightarrow> uint256 answer"
  call_owner :: "address \<Rightarrow> address answer"

text \<open>
  A read inside \<^verbatim>\<open>try\<close> \<open>\<dots>\<close> \<^verbatim>\<open>catch\<close> has three outcomes. The \<^verbatim>\<open>catch\<close> branch takes
  only a revert inside the called contract. A call to an account without code returns
  no data, and decoding the returned data happens in the caller: when it fails, the
  calling function itself reverts, and no \<^verbatim>\<open>catch\<close> takes that.
\<close>

datatype 'a attempt = Success 'a | Caught | Uncaught

definition try_call :: "chain \<Rightarrow> address \<Rightarrow> 'a answer \<Rightarrow> 'a attempt" where
  "try_call c target ans =
     (if extcodesize c target = 0 then Uncaught
      else case ans of Returns v \<Rightarrow> Success v | Reverts \<Rightarrow> Caught | Malformed \<Rightarrow> Uncaught)"

text \<open>
  The statement \<^verbatim>\<open>try\<close> \<open>\<dots>\<close> \<^verbatim>\<open>returns (v) { on_success } catch { on_catch }\<close> as a
  value: the result of the branch that runs, or the revert of the whole call.
\<close>

definition try_catch :: "'a attempt \<Rightarrow> ('a \<Rightarrow> 'b) \<Rightarrow> 'b \<Rightarrow> failure + 'b" where
  "try_catch att on_success on_catch =
     (case att of
        Success v \<Rightarrow> Inr (on_success v)
      | Caught \<Rightarrow> Inr on_catch
      | Uncaught \<Rightarrow> Inl UncaughtCallFailure)"

section \<open>ScamDetector\<close>

record ScamFlags =
  hasHiddenMint :: bool
  hasBlacklist :: bool
  hasHighTax :: bool
  hasLiquidityDrain :: bool
  hasOwnershipIssues :: bool
  isHoneypot :: bool
  riskScore :: uint256

datatype detector_event =
    ScamDetected address string uint256
  | TokenVerified address uint256

record detector = ownable +
  scamAnalysis :: "address \<Rightarrow> ScamFlags"
  knownScams :: "address \<Rightarrow> bool"
  trustedTokens :: "address \<Rightarrow> bool"
  detectorLog :: "detector_event list"

text \<open>A \<^verbatim>\<open>ScamFlags memory flags\<close> starts zero-initialised.\<close>

definition no_ScamFlags :: ScamFlags where
  "no_ScamFlags =
     \<lparr>hasHiddenMint = False, hasBlacklist = False, hasHighTax = False,
      hasLiquidityDrain = False, hasOwnershipIssues = False, isHoneypot = False,
      riskScore = 0\<rparr>"

definition detector_constructor :: "address \<Rightarrow> detector" where
  "detector_constructor sender =
     \<lparr>contractOwner = sender, scamAnalysis = (\<lambda>a. no_ScamFlags), knownScams = (\<lambda>a. False),
      trustedTokens = (\<lambda>a. False), detectorLog = []\<rparr>"

definition checkForHiddenMint :: "chain \<Rightarrow> address \<Rightarrow> bool" where
  "checkForHiddenMint c tokenAddress =
     (let codeSize = extcodesize c tokenAddress
      in if codeSize = 0 then False
         else let addressHash =
                    keccak256 (packed_address tokenAddress @ packed_uint256 (blockTimestamp c))
              in addressHash mod 7 = 0)"

definition checkForBlacklist :: "address \<Rightarrow> bool" where
  "checkForBlacklist tokenAddress =
     (let addressHash = keccak256 (packed_address tokenAddress)
      in addressHash mod 10 = 0)"

definition checkForHighTax :: "address \<Rightarrow> bool" where
  "checkForHighTax tokenAddress =
     (let addressHash = keccak256 (packed_address tokenAddress)
      in addressHash mod 5 = 0)"

definition checkForLiquidityDrain :: "address \<Rightarrow> bool" where
  "checkForLiquidityDrain tokenAddress =
     (let addressHash = keccak256 (packed_address tokenAddress)
      in addressHash mod 8 = 0)"

definition checkOwnershipIssues :: "chain \<Rightarrow> address \<Rightarrow> failure + bool" where
  "checkOwnershipIssues c tokenAddress =
     try_catch (try_call c tokenAddress (call_owner c tokenAddress))
       (\<lambda>owner.
          if owner = 0 then True
          else if extcodesize c owner > 0 then True
          else let addressHash = keccak256 (packed_address tokenAddress @ packed_address owner)
               in addressHash mod 6 = 0)
       True"

text \<open>
  \<^verbatim>\<open>ScamDetector.analyzeToken\<close>. \<open>score\<close> is the local \<^verbatim>\<open>uint256 riskScore\<close>; the struct
  field \<open>riskScore\<close> of \<open>flags\<close> is written at one place only, after the five checks.
  The additions are checked, and cannot overflow: the score is at most 125. The fifth
  check reads \<^verbatim>\<open>owner()\<close> of the token, and reverts the call when that read fails
  outside the reach of its \<^verbatim>\<open>catch\<close>.
\<close>

definition scamDetector_analyzeToken ::
  "chain \<Rightarrow> detector \<Rightarrow> address \<Rightarrow> failure + (ScamFlags \<times> detector)" where
  "scamDetector_analyzeToken c s tokenAddress =
     (if tokenAddress = 0 then Inl InvalidTokenAddress
      else
        let flags = no_ScamFlags;
            score = (0 :: uint256)
        in if knownScams s tokenAddress then
             let flags = flags\<lparr>isHoneypot := True\<rparr>;
                 score = (100 :: uint256);
                 s = s\<lparr>detectorLog := detectorLog s @
                        [ScamDetected tokenAddress ''Known scam token'' (blockTimestamp c)]\<rparr>;
                 s = s\<lparr>scamAnalysis := (scamAnalysis s)(tokenAddress := flags)\<rparr>
             in Inr (flags, s)
           else if trustedTokens s tokenAddress then
             let score = (0 :: uint256);
                 s = s\<lparr>scamAnalysis := (scamAnalysis s)(tokenAddress := flags)\<rparr>
             in Inr (flags, s)
           else
             let flags = flags\<lparr>hasHiddenMint := checkForHiddenMint c tokenAddress\<rparr>;
                 flags = flags\<lparr>hasBlacklist := checkForBlacklist tokenAddress\<rparr>;
                 flags = flags\<lparr>hasHighTax := checkForHighTax tokenAddress\<rparr>;
                 flags = flags\<lparr>hasLiquidityDrain := checkForLiquidityDrain tokenAddress\<rparr>
             in case checkOwnershipIssues c tokenAddress of
                  Inl f \<Rightarrow> Inl f
                | Inr ownershipIssues \<Rightarrow>
                    let flags = flags\<lparr>hasOwnershipIssues := ownershipIssues\<rparr>;
                        score = (if hasHiddenMint flags then score + 25 else score);
                        score = (if hasBlacklist flags then score + 30 else score);
                        score = (if hasHighTax flags then score + 20 else score);
                        score = (if hasLiquidityDrain flags then score + 35 else score);
                        score = (if hasOwnershipIssues flags then score + 15 else score);
                        flags = flags\<lparr>riskScore := score\<rparr>;
                        flags = flags\<lparr>isHoneypot := (score \<ge> 70)\<rparr>;
                        s = s\<lparr>scamAnalysis := (scamAnalysis s)(tokenAddress := flags)\<rparr>;
                        s = (if isHoneypot flags
                             then s\<lparr>detectorLog := detectorLog s @
                                    [ScamDetected tokenAddress ''High risk score detected''
                                       (blockTimestamp c)]\<rparr>
                             else s)
                    in Inr (flags, s))"

text \<open>The score that this branch accumulates from the five flags, written as one sum.\<close>

definition heuristic_score :: "bool \<Rightarrow> bool \<Rightarrow> bool \<Rightarrow> bool \<Rightarrow> bool \<Rightarrow> uint256" where
  "heuristic_score hiddenMint blacklist highTax liquidityDrain ownershipIssues =
     (if hiddenMint then 25 else 0) + (if blacklist then 30 else 0)
       + (if highTax then 20 else 0) + (if liquidityDrain then 35 else 0)
       + (if ownershipIssues then 15 else 0)"

definition addKnownScam ::
  "chain \<Rightarrow> detector \<Rightarrow> address \<Rightarrow> address \<Rightarrow> failure + (unit \<times> detector)" where
  "addKnownScam c s sender tokenAddress =
     onlyOwner sender (\<lambda>s.
       Inr ((), s\<lparr>knownScams := (knownScams s)(tokenAddress := True),
                  detectorLog := detectorLog s @
                    [ScamDetected tokenAddress ''Added to scam list'' (blockTimestamp c)]\<rparr>)) s"

definition addTrustedToken ::
  "chain \<Rightarrow> detector \<Rightarrow> address \<Rightarrow> address \<Rightarrow> failure + (unit \<times> detector)" where
  "addTrustedToken c s sender tokenAddress =
     onlyOwner sender (\<lambda>s.
       Inr ((), s\<lparr>trustedTokens := (trustedTokens s)(tokenAddress := True),
                  detectorLog := detectorLog s @
                    [TokenVerified tokenAddress (blockTimestamp c)]\<rparr>)) s"

definition removeFromScamList ::
  "detector \<Rightarrow> address \<Rightarrow> address \<Rightarrow> failure + (unit \<times> detector)" where
  "removeFromScamList s sender tokenAddress =
     onlyOwner sender (\<lambda>s.
       Inr ((), s\<lparr>knownScams := (knownScams s)(tokenAddress := False)\<rparr>)) s"

section \<open>TokenAnalyzer\<close>

record TokenInfo =
  name :: string
  symbol :: string
  decimals :: uint8
  totalSupply :: uint256
  owner :: address
  exists :: bool

record SecurityFlags =
  hasOwner :: bool
  hasMintFunction :: bool
  hasBurnFunction :: bool
  hasPauseFunction :: bool
  hasBlacklistFunction :: bool
  ownershipRenounced :: bool

datatype analyzer_event = TokenAnalyzed address address uint256

text \<open>
  \<open>thisAddress\<close> is \<^verbatim>\<open>address(this)\<close>: \<^verbatim>\<open>batchAnalyze\<close> calls \<^verbatim>\<open>this.analyzeToken\<close>, an
  external call of the contract to itself, whose \<^verbatim>\<open>msg.sender\<close> is the contract.
\<close>

record analyzer = guarded +
  thisAddress :: address
  analyzedTokens :: "address \<Rightarrow> TokenInfo"
  securityAnalysis :: "address \<Rightarrow> SecurityFlags"
  analyzerLog :: "analyzer_event list"

definition no_TokenInfo :: TokenInfo where
  "no_TokenInfo =
     \<lparr>name = [], symbol = [], decimals = 0, totalSupply = 0, owner = 0, exists = False\<rparr>"

definition no_SecurityFlags :: SecurityFlags where
  "no_SecurityFlags =
     \<lparr>hasOwner = False, hasMintFunction = False, hasBurnFunction = False,
      hasPauseFunction = False, hasBlacklistFunction = False, ownershipRenounced = False\<rparr>"

definition analyzer_constructor :: "address \<Rightarrow> address \<Rightarrow> analyzer" where
  "analyzer_constructor sender this =
     \<lparr>contractOwner = sender, reentrancyStatus = NOT_ENTERED, thisAddress = this,
      analyzedTokens = (\<lambda>a. no_TokenInfo), securityAnalysis = (\<lambda>a. no_SecurityFlags),
      analyzerLog = []\<rparr>"

subsection \<open>Rendering an address\<close>

definition alphabet :: string where
  "alphabet = ''0123456789abcdef''"

text \<open>
  \<^verbatim>\<open>bytes32 value = bytes32(uint256(uint160(_addr)))\<close>: the 32 bytes of the address
  widened to 256 bits, so that \<^verbatim>\<open>value[12]\<close> to \<^verbatim>\<open>value[31]\<close> are the address.
\<close>

definition bytes32_of_address :: "address \<Rightarrow> byte list" where
  "bytes32_of_address addr = packed_uint256 (ucast addr)"

function addressToString_loop :: "byte list \<Rightarrow> nat \<Rightarrow> string \<Rightarrow> string" where
  "addressToString_loop val i str =
     (if i < 20
      then addressToString_loop val (i + 1)
             (str[2 + i * 2 := alphabet ! unat (drop_bit 4 (val ! (i + 12))),
                  3 + i * 2 := alphabet ! unat (val ! (i + 12) AND 0x0f)])
      else str)"
  by pat_completeness auto
termination
  by (relation "measure (\<lambda>(val, i, str). 20 - i)") auto

definition addressToString :: "address \<Rightarrow> string" where
  "addressToString addr =
     (let val = bytes32_of_address addr;
          str = replicate 42 (CHR 0x00);
          str = str[0 := CHR ''0''];
          str = str[1 := CHR ''x'']
      in addressToString_loop val 0 str)"

function addressToShortString_loop :: "byte list \<Rightarrow> nat \<Rightarrow> string \<Rightarrow> string" where
  "addressToShortString_loop val i str =
     (if i < 3
      then addressToShortString_loop val (i + 1)
             (str[i * 2 := alphabet ! unat (drop_bit 4 (val ! (i + 12))),
                  i * 2 + 1 := alphabet ! unat (val ! (i + 12) AND 0x0f)])
      else str)"
  by pat_completeness auto
termination
  by (relation "measure (\<lambda>(val, i, str). 3 - i)") auto

definition addressToShortString :: "address \<Rightarrow> string" where
  "addressToShortString addr =
     (let val = bytes32_of_address addr;
          str = replicate 6 (CHR 0x00)
      in addressToShortString_loop val 0 str)"

subsection \<open>Analysis of one token and of a batch\<close>

text \<open>
  \<^verbatim>\<open>TokenAnalyzer.analyzeToken\<close> is \<^verbatim>\<open>nonReentrant\<close>; each of the five reads has its own
  \<^verbatim>\<open>try\<close>/\<^verbatim>\<open>catch\<close>, and a read that fails outside the reach of its \<^verbatim>\<open>catch\<close> reverts
  the call.
\<close>

definition tokenAnalyzer_analyzeToken ::
  "chain \<Rightarrow> analyzer \<Rightarrow> address \<Rightarrow> address \<Rightarrow> failure + (TokenInfo \<times> analyzer)" where
  "tokenAnalyzer_analyzeToken c s sender tokenAddress =
     nonReentrant (\<lambda>s.
       if tokenAddress = 0 then Inl InvalidTokenAddress
       else
         let info = no_TokenInfo
         in case try_catch (try_call c tokenAddress (call_name c tokenAddress))
                   (\<lambda>n. info\<lparr>name := n\<rparr>)
                   (info\<lparr>name := addressToString tokenAddress\<rparr>) of
              Inl f \<Rightarrow> Inl f
            | Inr info \<Rightarrow>
         case try_catch (try_call c tokenAddress (call_symbol c tokenAddress))
                   (\<lambda>sy. info\<lparr>symbol := sy\<rparr>)
                   (info\<lparr>symbol := addressToShortString tokenAddress\<rparr>) of
              Inl f \<Rightarrow> Inl f
            | Inr info \<Rightarrow>
         case try_catch (try_call c tokenAddress (call_decimals c tokenAddress))
                   (\<lambda>d. info\<lparr>decimals := d\<rparr>)
                   (info\<lparr>decimals := 18\<rparr>) of
              Inl f \<Rightarrow> Inl f
            | Inr info \<Rightarrow>
         case try_catch (try_call c tokenAddress (call_totalSupply c tokenAddress))
                   (\<lambda>supply. info\<lparr>totalSupply := supply, exists := True\<rparr>)
                   (info\<lparr>totalSupply := 1000000000000000000000000, exists := True\<rparr>) of
              Inl f \<Rightarrow> Inl f
            | Inr info \<Rightarrow>
         case try_catch (try_call c tokenAddress (call_owner c tokenAddress))
                   (\<lambda>ow. info\<lparr>owner := ow\<rparr>)
                   (info\<lparr>owner := 0xf39Fd6e51aad88F6F4ce6aB8827279cffFb92266\<rparr>) of
              Inl f \<Rightarrow> Inl f
            | Inr info \<Rightarrow>
                let s = s\<lparr>analyzedTokens := (analyzedTokens s)(tokenAddress := info)\<rparr>;
                    s = s\<lparr>analyzerLog := analyzerLog s @
                           [TokenAnalyzed tokenAddress sender (blockTimestamp c)]\<rparr>
                in Inr (info, s)) s"

definition setSecurityFlags ::
  "analyzer \<Rightarrow> address \<Rightarrow> address \<Rightarrow> SecurityFlags \<Rightarrow> failure + (unit \<times> analyzer)" where
  "setSecurityFlags s sender tokenAddress flags =
     onlyOwner sender (\<lambda>s.
       Inr ((), s\<lparr>securityAnalysis := (securityAnalysis s)(tokenAddress := flags)\<rparr>)) s"

definition calculateRiskScore :: "analyzer \<Rightarrow> address \<Rightarrow> uint256" where
  "calculateRiskScore s tokenAddress =
     (let flags = securityAnalysis s tokenAddress;
          score = (0 :: uint256);
          score = (if hasOwner flags \<and> \<not> ownershipRenounced flags then score + 20 else score);
          score = (if hasMintFunction flags then score + 25 else score);
          score = (if hasPauseFunction flags then score + 15 else score);
          score = (if hasBlacklistFunction flags then score + 30 else score);
          score = (if \<not> hasBurnFunction flags then score + 10 else score)
      in score)"

text \<open>
  The loop of \<^verbatim>\<open>batchAnalyze\<close>: \<^verbatim>\<open>results[i] = this.analyzeToken(tokens[i])\<close> for
  \<open>i\<close> from 0. The call is not wrapped in \<^verbatim>\<open>try\<close>, so a revert of it reverts the batch.
\<close>

fun batchAnalyze_loop ::
  "chain \<Rightarrow> analyzer \<Rightarrow> address list \<Rightarrow> failure + (TokenInfo list \<times> analyzer)" where
  "batchAnalyze_loop c s [] = Inr ([], s)"
| "batchAnalyze_loop c s (t # tokens) =
     (case tokenAnalyzer_analyzeToken c s (thisAddress s) t of
        Inl f \<Rightarrow> Inl f
      | Inr (info, s') \<Rightarrow>
          (case batchAnalyze_loop c s' tokens of
             Inl f \<Rightarrow> Inl f
           | Inr (results, s'') \<Rightarrow> Inr (info # results, s'')))"

definition batchAnalyze ::
  "chain \<Rightarrow> analyzer \<Rightarrow> address \<Rightarrow> address list \<Rightarrow> failure + (TokenInfo list \<times> analyzer)" where
  "batchAnalyze c s sender tokens =
     nonReentrant (\<lambda>s.
       if \<not> length tokens \<le> 10 then Inl TooManyTokens
       else batchAnalyze_loop c s tokens) s"

section \<open>The specification's words\<close>

text \<open>
  The fallbacks of the metadata store, as the specification words them: the hex
  rendering of a byte string, two lower-case hex digits per byte.
\<close>

definition hex_digit :: "byte \<Rightarrow> char" where
  "hex_digit n = ''0123456789abcdef'' ! unat n"

definition hex_of_bytes :: "byte list \<Rightarrow> string" where
  "hex_of_bytes bs = concat (map (\<lambda>b. [hex_digit (drop_bit 4 b), hex_digit (b AND 0x0f)]) bs)"


section \<open>Concrete inputs\<close>

text \<open>
  Inputs for the concrete runs below: the first two accounts of a local development
  chain and the addresses of two contracts deployed on it.
\<close>

definition deployer :: address where
  "deployer = 0xf39Fd6e51aad88F6F4ce6aB8827279cffFb92266"

definition stranger :: address where
  "stranger = 0x70997970C51812dc3A010C7d01b50e0d17dc79C8"

definition token_A :: address where
  "token_A = 0x5fbdb2315678afecb367f032d93f642f64180b4d"

definition analyzer_address :: address where
  "analyzer_address = 0xe7f1725E7734CE288F8367e1Bb143E90bb3F0512"

text \<open>
  A chain at time \<open>t\<close> on which \<open>token_A\<close> is the only account with code, a contract
  that reverts on each of the five reads, and a detector whose owner has put \<open>token_A\<close>
  on the list of known scams.
\<close>

definition bare_chain :: "uint256 \<Rightarrow> chain" where
  "bare_chain t =
     \<lparr>blockTimestamp = t, extcodesize = (\<lambda>a. if a = token_A then 2048 else 0),
      call_name = (\<lambda>a. Reverts), call_symbol = (\<lambda>a. Reverts),
      call_decimals = (\<lambda>a. Reverts), call_totalSupply = (\<lambda>a. Reverts),
      call_owner = (\<lambda>a. Reverts)\<rparr>"

definition detector_with_scam :: detector where
  "detector_with_scam =
     state_after (detector_constructor deployer)
       (addKnownScam (bare_chain 1690000000) (detector_constructor deployer) deployer token_A)"

definition risky_SecurityFlags :: SecurityFlags where
  "risky_SecurityFlags =
     \<lparr>hasOwner = True, hasMintFunction = True, hasBurnFunction = False,
      hasPauseFunction = True, hasBlacklistFunction = True, ownershipRenounced = False\<rparr>"

section \<open>Properties of the AuditRegistry\<close>

lemma submitAuditResult_unauthorized:
  assumes "\<not> (authorizedAuditors s sender \<or> sender = contractOwner s)"
  shows "submitAuditResult now s sender token score scam honeypot ref = Inl NotAuthorizedAuditor"
  using assms by (simp add: submitAuditResult_def onlyAuthorizedAuditor_def)

lemma submitAuditResult_authorized:
  assumes "authorizedAuditors s sender \<or> sender = contractOwner s"
    and "reentrancyStatus s = NOT_ENTERED"
  shows "submitAuditResult now s sender token score scam honeypot ref =
     (if token = 0 then Inl InvalidTokenAddress
      else if 100 < score then Inl RiskScoreTooHigh
      else if auditCount s sender = - 1 then Inl ArithmeticOverflow
      else Inr ((),
         s\<lparr>auditRecords := (auditRecords s)(token :=
              \<lparr>rec_tokenAddress = token, rec_riskScore = score,
               rec_isScam = scam, rec_isHoneypot = honeypot,
               rec_auditTimestamp = now, rec_auditor = sender, rec_ipfsHash = ref\<rparr>),
           auditCount := (auditCount s)(sender := auditCount s sender + 1),
           registryLog := registryLog s @ [AuditCompleted token sender score scam now]\<rparr>))"
  using assms
  by (auto simp add: submitAuditResult_def onlyAuthorizedAuditor_def nonReentrant_def not_le)

lemma submitAuditResult_atomic:
  "(\<exists>f. submitAuditResult now s sender token score scam honeypot ref = Inl f
        \<and> state_after s (submitAuditResult now s sender token score scam honeypot ref) = s)
   \<or> (\<exists>s'. submitAuditResult now s sender token score scam honeypot ref = Inr ((), s')
        \<and> auditRecords s' token =
              \<lparr>rec_tokenAddress = token, rec_riskScore = score, rec_isScam = scam,
               rec_isHoneypot = honeypot, rec_auditTimestamp = now, rec_auditor = sender,
               rec_ipfsHash = ref\<rparr>
        \<and> registryLog s' = registryLog s @ [AuditCompleted token sender score scam now]
        \<and> auditCount s' sender = auditCount s sender + 1)"
  by (auto simp add: submitAuditResult_def onlyAuthorizedAuditor_def nonReentrant_def
      state_after_def)

text \<open>
  Claim C2, as stated: \<^verbatim>\<open>submitAuditResult\<close> with a score above 100 fails with a
  \<open>ValidationError\<close> for every caller, authorized or not. It does not: the modifier
  \<^verbatim>\<open>onlyAuthorizedAuditor\<close> runs before the body, so a caller that is neither authorized
  nor the owner gets the authorization failure, here with the score 101.
\<close>

theorem submit_score_101_unauthorized:
  "submitAuditResult 1700000000 (registry_constructor deployer) stranger token_A 101 False False []
     = Inl NotAuthorizedAuditor
   \<and> error_class_of NotAuthorizedAuditor \<noteq> ValidationError"
  by (simp add: submitAuditResult_def onlyAuthorizedAuditor_def registry_constructor_def
      deployer_def stranger_def)

text \<open>
  Claim C2, amended: with a score above 100, a caller that is authorized or the owner
  gets a \<open>ValidationError\<close> (outside a re-entrant call; the zero-address check comes
  first), every other caller gets the \<open>AuthorizationError\<close>, and in every case the call
  changes no state.
\<close>

theorem submit_score_over_100:
  assumes "100 < score"
  shows "(if authorizedAuditors s sender \<or> sender = contractOwner s
          then reentrancyStatus s = NOT_ENTERED \<longrightarrow>
               submitAuditResult now s sender token score scam honeypot ref =
                 Inl (if token = 0 then InvalidTokenAddress else RiskScoreTooHigh)
               \<and> error_class_of (if token = 0 then InvalidTokenAddress else RiskScoreTooHigh)
                   = ValidationError
          else submitAuditResult now s sender token score scam honeypot ref =
                 Inl NotAuthorizedAuditor
               \<and> error_class_of NotAuthorizedAuditor = AuthorizationError)
         \<and> state_after s (submitAuditResult now s sender token score scam honeypot ref) = s"
proof (cases "authorizedAuditors s sender \<or> sender = contractOwner s")
  case True
  show ?thesis
  proof (cases "reentrancyStatus s")
    case NOT_ENTERED
    with True assms show ?thesis
      by (simp add: submitAuditResult_authorized state_after_def)
  next
    case ENTERED
    with True show ?thesis
      by (auto simp add: submitAuditResult_def onlyAuthorizedAuditor_def nonReentrant_def
          state_after_def)
  qed
next
  case False
  then show ?thesis
    by (simp add: submitAuditResult_unauthorized state_after_def)
qed

theorem submit_score_over_100_witness:
  "(100 :: uint256) < 101
   \<and> submitAuditResult 1700000000 (registry_constructor deployer) deployer token_A 101 True True []
       = Inl RiskScoreTooHigh
   \<and> error_class_of RiskScoreTooHigh = ValidationError
   \<and> submitAuditResult 1700000000 (registry_constructor deployer) stranger token_A 101 True True []
       = Inl NotAuthorizedAuditor
   \<and> state_after (registry_constructor deployer)
        (submitAuditResult 1700000000 (registry_constructor deployer) deployer token_A 101 True
           True []) = registry_constructor deployer"
proof -
  have h: "(100 :: uint256) < 101" by simp
  have a: "authorizedAuditors (registry_constructor deployer) deployer"
    by (simp add: registry_constructor_def)
  have n: "reentrancyStatus (registry_constructor deployer) = NOT_ENTERED"
    by (simp add: registry_constructor_def)
  have t: "token_A \<noteq> 0" by (simp add: token_A_def)
  have u: "\<not> (authorizedAuditors (registry_constructor deployer) stranger
             \<or> stranger = contractOwner (registry_constructor deployer))"
    by (simp add: registry_constructor_def deployer_def stranger_def)
  show ?thesis
    using submit_score_over_100 [OF h, of "registry_constructor deployer" deployer
        1700000000 token_A True True "[]"]
      submit_score_over_100 [OF h, of "registry_constructor deployer" stranger
        1700000000 token_A True True "[]"] a n t u h
    by (simp add: state_after_def)
qed

text \<open>
  Claim C7: a caller that is neither in the set of authorized auditors nor the owner
  gets the \<open>AuthorizationError\<close> from \<^verbatim>\<open>submitAuditResult\<close>, and the audit records, the
  metrics, the counters and the authorizations (the whole state) stay as they were.
  For every caller the call is atomic: either it fails and nothing changes, or the
  full record is replaced, the counter incremented and the event emitted.
\<close>

theorem submit_unauthorized_no_change:
  "(\<not> (authorizedAuditors s sender \<or> sender = contractOwner s) \<longrightarrow>
      submitAuditResult now s sender token score scam honeypot ref = Inl NotAuthorizedAuditor
      \<and> error_class_of NotAuthorizedAuditor = AuthorizationError
      \<and> state_after s (submitAuditResult now s sender token score scam honeypot ref) = s)
   \<and> ((\<exists>f. submitAuditResult now s sender token score scam honeypot ref = Inl f
          \<and> state_after s (submitAuditResult now s sender token score scam honeypot ref) = s)
      \<or> (\<exists>s'. submitAuditResult now s sender token score scam honeypot ref = Inr ((), s')
          \<and> auditRecords s' token =
                \<lparr>rec_tokenAddress = token, rec_riskScore = score, rec_isScam = scam,
                 rec_isHoneypot = honeypot, rec_auditTimestamp = now, rec_auditor = sender,
                 rec_ipfsHash = ref\<rparr>
          \<and> registryLog s' = registryLog s @ [AuditCompleted token sender score scam now]
          \<and> auditCount s' sender = auditCount s sender + 1))"
  using submitAuditResult_atomic [of now s sender token score scam honeypot ref]
  by (simp add: submitAuditResult_unauthorized state_after_def)

theorem submit_unauthorized_no_change_witness:
  "\<not> (authorizedAuditors (registry_constructor deployer) stranger
        \<or> stranger = contractOwner (registry_constructor deployer))
   \<and> submitAuditResult 1700000000 (registry_constructor deployer) stranger token_A 40 False
         False ''QmReport'' = Inl NotAuthorizedAuditor
   \<and> state_after (registry_constructor deployer)
        (submitAuditResult 1700000000 (registry_constructor deployer) stranger token_A 40 False
           False ''QmReport'') = registry_constructor deployer"
proof -
  have u: "\<not> (authorizedAuditors (registry_constructor deployer) stranger
             \<or> stranger = contractOwner (registry_constructor deployer))"
    by (simp add: registry_constructor_def deployer_def stranger_def)
  show ?thesis
    using submit_unauthorized_no_change [of "registry_constructor deployer" stranger
        1700000000 token_A 40 False False "''QmReport''"] u
    by (simp add: state_after_def)
qed

section \<open>Properties of the pipeline's risk level\<close>

text \<open>
  Claim C4: for a score \<open>s\<close> in \<open>[0, 100]\<close> the bucket is \<open>LOW\<close> iff \<open>0 \<le> s < 25\<close>,
  \<open>MEDIUM\<close> iff \<open>25 \<le> s < 50\<close>, \<open>HIGH\<close> iff \<open>50 \<le> s < 75\<close> and \<open>CRITICAL\<close> iff
  \<open>75 \<le> s \<le> 100\<close>; the boundary values 25, 50, 75 and 100 map as listed.
\<close>

theorem riskLevel_buckets:
  assumes "0 \<le> s" and "s \<le> 100"
  shows "(riskLevel s = LOW \<longleftrightarrow> 0 \<le> s \<and> s < 25)
       \<and> (riskLevel s = MEDIUM \<longleftrightarrow> 25 \<le> s \<and> s < 50)
       \<and> (riskLevel s = HIGH \<longleftrightarrow> 50 \<le> s \<and> s < 75)
       \<and> (riskLevel s = CRITICAL \<longleftrightarrow> 75 \<le> s \<and> s \<le> 100)
       \<and> riskLevel 0 = LOW \<and> riskLevel 24 = LOW
       \<and> riskLevel 25 = MEDIUM \<and> riskLevel 49 = MEDIUM
       \<and> riskLevel 50 = HIGH \<and> riskLevel 74 = HIGH
       \<and> riskLevel 75 = CRITICAL \<and> riskLevel 100 = CRITICAL"
  using assms by (simp add: riskLevel_def)

theorem riskLevel_buckets_witness:
  "(0 :: int) \<le> 25 \<and> (25 :: int) \<le> 100
   \<and> riskLevel 25 = MEDIUM \<and> riskLevel 25 \<noteq> LOW
   \<and> riskLevel 75 = CRITICAL \<and> riskLevel 100 = CRITICAL"
proof -
  have a: "(0 :: int) \<le> 25" and b: "(25 :: int) \<le> 100" by simp_all
  show ?thesis
    using riskLevel_buckets [OF a b] by simp
qed

section \<open>Evaluating Keccak-256\<close>

lemma replicate_numeral: "replicate (numeral k) x = x # replicate (pred_numeral k) x"
  by (simp add: numeral_eq_Suc)

lemma list_update_Cons_numeral:
  "(x # xs)[numeral k := y] = x # xs[pred_numeral k := y]"
  by (simp add: numeral_eq_Suc)

lemma xor_plane_zero: "xor_plane zero_plane p = p"
  by (cases p rule: prod_cases5) (simp add: zero_plane_def)

lemma xor_sponge_zero:
  "xor_sponge (zero_plane, zero_plane, zero_plane, zero_plane, zero_plane) q = q"
  by (cases q rule: prod_cases5) (simp add: xor_plane_zero)

text \<open>A message shorter than 135 bytes is padded to one block and absorbed at once.\<close>

lemma keccak256_short:
  assumes "length m < 135"
  shows "keccak256 m =
         squeeze (keccak_f (block_sponge (m @ 1 # replicate (134 - length m) 0 @ [0x80])))"
proof -
  have p: "pad101 m = m @ 1 # replicate (134 - length m) 0 @ [0x80]"
    using assms by (simp add: pad101_def Let_def)
  have l: "length (pad101 m) = 136"
    using assms by (simp add: p)
  have "absorb_blocks (Suc 0) a (pad101 m) = absorb a (pad101 m)" for a
    using l by simp
  then show ?thesis
    using l by (simp add: keccak256_def Let_def absorb_def xor_sponge_zero p)
qed

lemmas keccak_eval =
  keccak256_short packed_address_def packed_uint256_def replicate_numeral block_sponge_def
  le_lane_def keccak_f_def round_constants_def keccak_round_def theta_def rotl64_def be_lane_def

text \<open>
  The digests of \<open>token_A\<close> alone and of \<open>token_A\<close> followed by two block timestamps,
  computed by rewriting.
\<close>

lemma hash_token_A:
  "keccak256 (packed_address token_A) =
     0xbe73e8d438dfe4a9447a97d5f894ec4e0760da30f0b4acaf7cedff5a17d497a8"
  by (simp add: token_A_def keccak_eval)

lemma hash_token_A_1700000005:
  "keccak256 (packed_address token_A @ packed_uint256 1700000005) =
     0x4bcc762eca0e5dd532265bbe5bf97372ae7c44d4ec39d1478e32667cbe98ef52"
  by (simp add: token_A_def keccak_eval)

lemma hash_token_A_1700000000:
  "keccak256 (packed_address token_A @ packed_uint256 1700000000) =
     0xc42b19ac4d1a1d315aadcee06bf749c0ac6ec3cd433c83ef503bdd758a185fd9"
  by (simp add: token_A_def keccak_eval)

section \<open>Properties of the ScamDetector\<close>

lemma token_A_nonzero: "token_A \<noteq> 0"
  by (simp add: token_A_def)

lemma token_A_reverts_on_owner:
  "try_call (bare_chain t) token_A (call_owner (bare_chain t) token_A) = Caught"
  by (simp add: try_call_def bare_chain_def)

lemma analyzeToken_zero:
  "scamDetector_analyzeToken c s 0 = Inl InvalidTokenAddress"
  by (simp add: scamDetector_analyzeToken_def)

lemma analyzeToken_known_scam:
  assumes "tokenAddress \<noteq> 0" and "knownScams s tokenAddress"
  shows "scamDetector_analyzeToken c s tokenAddress =
     Inr (no_ScamFlags\<lparr>isHoneypot := True\<rparr>,
          s\<lparr>detectorLog := detectorLog s @
               [ScamDetected tokenAddress ''Known scam token'' (blockTimestamp c)],
            scamAnalysis := (scamAnalysis s)(tokenAddress := no_ScamFlags\<lparr>isHoneypot := True\<rparr>)\<rparr>)"
  using assms by (simp add: scamDetector_analyzeToken_def Let_def)

lemma analyzeToken_trusted:
  assumes "tokenAddress \<noteq> 0" and "\<not> knownScams s tokenAddress"
    and "trustedTokens s tokenAddress"
  shows "scamDetector_analyzeToken c s tokenAddress =
     Inr (no_ScamFlags, s\<lparr>scamAnalysis := (scamAnalysis s)(tokenAddress := no_ScamFlags)\<rparr>)"
  using assms by (simp add: scamDetector_analyzeToken_def Let_def)



lemma analyzeToken_heuristic_reverts:
  assumes "tokenAddress \<noteq> 0" and "\<not> knownScams s tokenAddress"
    and "\<not> trustedTokens s tokenAddress"
    and "checkOwnershipIssues c tokenAddress = Inl f"
  shows "scamDetector_analyzeToken c s tokenAddress = Inl f"
  using assms by (simp add: scamDetector_analyzeToken_def Let_def)

lemma analyzeToken_heuristic_flags:
  assumes "tokenAddress \<noteq> 0" and "\<not> knownScams s tokenAddress"
    and "\<not> trustedTokens s tokenAddress"
    and "checkOwnershipIssues c tokenAddress = Inr issues"
  shows "\<exists>s'. scamDetector_analyzeToken c s tokenAddress =
     Inr (\<lparr>hasHiddenMint = checkForHiddenMint c tokenAddress,
           hasBlacklist = checkForBlacklist tokenAddress,
           hasHighTax = checkForHighTax tokenAddress,
           hasLiquidityDrain = checkForLiquidityDrain tokenAddress,
           hasOwnershipIssues = issues,
           isHoneypot = (70 \<le> heuristic_score (checkForHiddenMint c tokenAddress)
             (checkForBlacklist tokenAddress) (checkForHighTax tokenAddress)
             (checkForLiquidityDrain tokenAddress) issues),
           riskScore = heuristic_score (checkForHiddenMint c tokenAddress)
             (checkForBlacklist tokenAddress) (checkForHighTax tokenAddress)
             (checkForLiquidityDrain tokenAddress) issues\<rparr>, s')
     \<and> scamAnalysis s' tokenAddress =
          \<lparr>hasHiddenMint = checkForHiddenMint c tokenAddress,
           hasBlacklist = checkForBlacklist tokenAddress,
           hasHighTax = checkForHighTax tokenAddress,
           hasLiquidityDrain = checkForLiquidityDrain tokenAddress,
           hasOwnershipIssues = issues,
           isHoneypot = (70 \<le> heuristic_score (checkForHiddenMint c tokenAddress)
             (checkForBlacklist tokenAddress) (checkForHighTax tokenAddress)
             (checkForLiquidityDrain tokenAddress) issues),
           riskScore = heuristic_score (checkForHiddenMint c tokenAddress)
             (checkForBlacklist tokenAddress) (checkForHighTax tokenAddress)
             (checkForLiquidityDrain tokenAddress) issues\<rparr>"
  using assms
  by (simp add: scamDetector_analyzeToken_def Let_def no_ScamFlags_def heuristic_score_def)



text \<open>The five checks on \<open>token_A\<close>, on the bare chain at two block timestamps.\<close>

lemma address_checks_token_A:
  "checkForBlacklist token_A" "checkForHighTax token_A" "checkForLiquidityDrain token_A"
  by (simp_all add: checkForBlacklist_def checkForHighTax_def checkForLiquidityDrain_def
      hash_token_A)

lemma ownership_check_bare_chain: "checkOwnershipIssues (bare_chain t) token_A = Inr True"
  by (simp add: checkOwnershipIssues_def try_catch_def token_A_reverts_on_owner)

lemma hidden_mint_1700000005: "checkForHiddenMint (bare_chain 1700000005) token_A"
  by (simp add: checkForHiddenMint_def bare_chain_def hash_token_A_1700000005)

lemma hidden_mint_1700000000: "\<not> checkForHiddenMint (bare_chain 1700000000) token_A"
  by (simp add: checkForHiddenMint_def bare_chain_def hash_token_A_1700000000)

lemma no_lists_at_construction:
  "\<not> knownScams (detector_constructor sender) a" "\<not> trustedTokens (detector_constructor sender) a"
  by (simp_all add: detector_constructor_def)

lemma knownScams_detector_with_scam: "knownScams detector_with_scam token_A"
  by (simp add: detector_with_scam_def addKnownScam_def onlyOwner_def state_after_def
      detector_constructor_def)

text \<open>
  Claim C1 says that for an address on the list of known scams \<^verbatim>\<open>analyzeToken\<close> returns
  and stores \<open>isHoneypot = true\<close> and \<open>riskScore = 100\<close>. The code sets the flag, but
  assigns 100 to its local variable only and never to the field: on \<open>token_A\<close>, listed
  as a known scam, the returned and the stored \<open>riskScore\<close> are 0.
\<close>

theorem known_scam_riskScore_zero:
  "(case scamDetector_analyzeToken (bare_chain 1700000000) detector_with_scam token_A of
      Inl f \<Rightarrow> False
    | Inr (flags, s') \<Rightarrow>
        knownScams detector_with_scam token_A
        \<and> isHoneypot flags \<and> riskScore flags = 0 \<and> riskScore flags \<noteq> 100
        \<and> scamAnalysis s' token_A = flags)"
  by (simp add: analyzeToken_known_scam token_A_nonzero knownScams_detector_with_scam
      no_ScamFlags_def)



text \<open>
  Claim C8, as stated: two runs of \<^verbatim>\<open>analyzeToken\<close> against the same address, with the
  same override lists, return identical flags. They do not: \<^verbatim>\<open>checkForHiddenMint\<close>
  hashes the address together with \<^verbatim>\<open>block.timestamp\<close>. Two runs on \<open>token_A\<close>, from the
  same detector state and on the same chain but for the block timestamp, five seconds
  apart: one finds a hidden mint and scores 125, the other does not and scores 100.
\<close>

theorem hidden_mint_depends_on_timestamp:
  "map_sum id fst (scamDetector_analyzeToken (bare_chain 1700000005)
       (detector_constructor deployer) token_A)
     = Inr \<lparr>hasHiddenMint = True, hasBlacklist = True, hasHighTax = True,
            hasLiquidityDrain = True, hasOwnershipIssues = True, isHoneypot = True,
            riskScore = 125\<rparr>
   \<and> map_sum id fst (scamDetector_analyzeToken (bare_chain 1700000000)
       (detector_constructor deployer) token_A)
     = Inr \<lparr>hasHiddenMint = False, hasBlacklist = True, hasHighTax = True,
            hasLiquidityDrain = True, hasOwnershipIssues = True, isHoneypot = True,
            riskScore = 100\<rparr>
   \<and> map_sum id fst (scamDetector_analyzeToken (bare_chain 1700000005)
       (detector_constructor deployer) token_A)
     \<noteq> map_sum id fst (scamDetector_analyzeToken (bare_chain 1700000000)
       (detector_constructor deployer) token_A)"
proof -
  have k: "\<not> knownScams (detector_constructor deployer) token_A"
    and t: "\<not> trustedTokens (detector_constructor deployer) token_A"
    by (rule no_lists_at_construction)+
  from analyzeToken_heuristic_flags [OF token_A_nonzero k t ownership_check_bare_chain,
      of 1700000005]
  have a: "map_sum id fst (scamDetector_analyzeToken (bare_chain 1700000005)
       (detector_constructor deployer) token_A)
     = Inr \<lparr>hasHiddenMint = True, hasBlacklist = True, hasHighTax = True,
            hasLiquidityDrain = True, hasOwnershipIssues = True, isHoneypot = True,
            riskScore = 125\<rparr>"
    using address_checks_token_A hidden_mint_1700000005
    by (auto simp add: heuristic_score_def)
  from analyzeToken_heuristic_flags [OF token_A_nonzero k t ownership_check_bare_chain,
      of 1700000000]
  have b: "map_sum id fst (scamDetector_analyzeToken (bare_chain 1700000000)
       (detector_constructor deployer) token_A)
     = Inr \<lparr>hasHiddenMint = False, hasBlacklist = True, hasHighTax = True,
            hasLiquidityDrain = True, hasOwnershipIssues = True, isHoneypot = True,
            riskScore = 100\<rparr>"
    using address_checks_token_A hidden_mint_1700000000
    by (auto simp add: heuristic_score_def)
  show ?thesis
    by (simp add: a b)
qed

text \<open>
  The flags of a run, by cases: the two lists first, then the five checks, of which only
  the first and the last read the chain.
\<close>

lemma analyzeToken_flags:
  "map_sum id fst (scamDetector_analyzeToken c s a) =
     (if a = 0 then Inl InvalidTokenAddress
      else if knownScams s a then Inr (no_ScamFlags\<lparr>isHoneypot := True\<rparr>)
      else if trustedTokens s a then Inr no_ScamFlags
      else map_sum id
        (\<lambda>issues. \<lparr>hasHiddenMint = checkForHiddenMint c a,
           hasBlacklist = checkForBlacklist a,
           hasHighTax = checkForHighTax a,
           hasLiquidityDrain = checkForLiquidityDrain a,
           hasOwnershipIssues = issues,
           isHoneypot = (70 \<le> heuristic_score (checkForHiddenMint c a) (checkForBlacklist a)
             (checkForHighTax a) (checkForLiquidityDrain a) issues),
           riskScore = heuristic_score (checkForHiddenMint c a) (checkForBlacklist a)
             (checkForHighTax a) (checkForLiquidityDrain a) issues\<rparr>)
        (checkOwnershipIssues c a))"
proof -
  consider (zero) "a = 0" | (scam) "a \<noteq> 0" "knownScams s a"
    | (trusted) "a \<noteq> 0" "\<not> knownScams s a" "trustedTokens s a"
    | (heuristic) "a \<noteq> 0" "\<not> knownScams s a" "\<not> trustedTokens s a"
    by blast
  then show ?thesis
  proof cases
    case zero
    then show ?thesis
      by (simp add: analyzeToken_zero)
  next
    case scam
    then show ?thesis
      by (simp add: analyzeToken_known_scam)
  next
    case trusted
    then show ?thesis
      by (simp add: analyzeToken_trusted)
  next
    case heuristic
    show ?thesis
    proof (cases "checkOwnershipIssues c a")
      case (Inl f)
      with heuristic show ?thesis
        by (simp add: analyzeToken_heuristic_reverts [OF heuristic Inl])
    next
      case (Inr issues)
      from analyzeToken_heuristic_flags [OF heuristic Inr] obtain s'
        where "scamDetector_analyzeToken c s a =
          Inr (\<lparr>hasHiddenMint = checkForHiddenMint c a,
           hasBlacklist = checkForBlacklist a,
           hasHighTax = checkForHighTax a,
           hasLiquidityDrain = checkForLiquidityDrain a,
           hasOwnershipIssues = issues,
           isHoneypot = (70 \<le> heuristic_score (checkForHiddenMint c a) (checkForBlacklist a)
             (checkForHighTax a) (checkForLiquidityDrain a) issues),
           riskScore = heuristic_score (checkForHiddenMint c a) (checkForBlacklist a)
             (checkForHighTax a) (checkForLiquidityDrain a) issues\<rparr>, s')"
        by blast
      with heuristic Inr show ?thesis
        by simp
    qed
  qed
qed

lemma analyzeToken_address_flags:
  assumes "scamDetector_analyzeToken c s a = Inr (flags, s')"
  shows "hasBlacklist flags = (\<not> knownScams s a \<and> \<not> trustedTokens s a \<and> checkForBlacklist a)"
    and "hasHighTax flags = (\<not> knownScams s a \<and> \<not> trustedTokens s a \<and> checkForHighTax a)"
    and "hasLiquidityDrain flags
      = (\<not> knownScams s a \<and> \<not> trustedTokens s a \<and> checkForLiquidityDrain a)"
proof -
  from assms have "map_sum id fst (scamDetector_analyzeToken c s a) = Inr flags"
    by simp
  then have "hasBlacklist flags = (\<not> knownScams s a \<and> \<not> trustedTokens s a \<and> checkForBlacklist a)
    \<and> hasHighTax flags = (\<not> knownScams s a \<and> \<not> trustedTokens s a \<and> checkForHighTax a)
    \<and> hasLiquidityDrain flags
      = (\<not> knownScams s a \<and> \<not> trustedTokens s a \<and> checkForLiquidityDrain a)"
    unfolding analyzeToken_flags
    by (cases "checkOwnershipIssues c a") (auto simp add: no_ScamFlags_def split: if_splits)
  then show "hasBlacklist flags = (\<not> knownScams s a \<and> \<not> trustedTokens s a \<and> checkForBlacklist a)"
    and "hasHighTax flags = (\<not> knownScams s a \<and> \<not> trustedTokens s a \<and> checkForHighTax a)"
    and "hasLiquidityDrain flags
      = (\<not> knownScams s a \<and> \<not> trustedTokens s a \<and> checkForLiquidityDrain a)"
    by simp_all
qed

text \<open>
  Claim C8, amended: the result of a run is a function of the address, of its
  membership in the two lists, and of four readings of the chain: the block timestamp,
  the code size of the token, the answer to its \<^verbatim>\<open>owner()\<close> read and the code size of
  that owner. Two runs that agree on these return the same flags or fail alike,
  whatever else differs in the stored state and on the chain; whether a run returns at
  all is decided by the code size of the token and the answer to its \<^verbatim>\<open>owner()\<close> read;
  and whenever two runs on an address with the same list membership both return, they
  agree on \<open>hasBlacklist\<close>, \<open>hasHighTax\<close> and \<open>hasLiquidityDrain\<close>: these three are
  keyed by the address only.
\<close>

theorem flags_depend_on_chain_inputs_only:
  assumes "knownScams s1 a = knownScams s2 a" and "trustedTokens s1 a = trustedTokens s2 a"
  shows "(blockTimestamp c1 = blockTimestamp c2 \<and> extcodesize c1 a = extcodesize c2 a
          \<and> call_owner c1 a = call_owner c2 a
          \<and> (\<forall>ow. call_owner c1 a = Returns ow \<longrightarrow> extcodesize c1 ow = extcodesize c2 ow)
          \<longrightarrow> map_sum id fst (scamDetector_analyzeToken c1 s1 a)
              = map_sum id fst (scamDetector_analyzeToken c2 s2 a))
       \<and> (extcodesize c1 a = extcodesize c2 a \<and> call_owner c1 a = call_owner c2 a
          \<longrightarrow> isl (scamDetector_analyzeToken c1 s1 a) = isl (scamDetector_analyzeToken c2 s2 a))
       \<and> (\<forall>f1 t1 f2 t2.
            scamDetector_analyzeToken c1 s1 a = Inr (f1, t1)
            \<and> scamDetector_analyzeToken c2 s2 a = Inr (f2, t2)
            \<longrightarrow> hasBlacklist f1 = hasBlacklist f2 \<and> hasHighTax f1 = hasHighTax f2
                \<and> hasLiquidityDrain f1 = hasLiquidityDrain f2)"
proof -
  note r1 = analyzeToken_flags [of c1 s1 a] and r2 = analyzeToken_flags [of c2 s2 a]
  have m: "checkForHiddenMint c1 a = checkForHiddenMint c2 a"
    if "blockTimestamp c1 = blockTimestamp c2" and "extcodesize c1 a = extcodesize c2 a"
    using that by (simp add: checkForHiddenMint_def)
  have o: "checkOwnershipIssues c1 a = checkOwnershipIssues c2 a"
    if "extcodesize c1 a = extcodesize c2 a" and "call_owner c1 a = call_owner c2 a"
      and "\<forall>ow. call_owner c1 a = Returns ow \<longrightarrow> extcodesize c1 ow = extcodesize c2 ow"
    using that
    by (cases "call_owner c2 a")
      (simp_all add: checkOwnershipIssues_def try_catch_def try_call_def)
  have i: "isl (checkOwnershipIssues c1 a) = isl (checkOwnershipIssues c2 a)"
    if "extcodesize c1 a = extcodesize c2 a" and "call_owner c1 a = call_owner c2 a"
    using that
    by (cases "call_owner c2 a")
      (simp_all add: checkOwnershipIssues_def try_catch_def try_call_def)
  have first: "map_sum id fst (scamDetector_analyzeToken c1 s1 a)
      = map_sum id fst (scamDetector_analyzeToken c2 s2 a)"
    if "blockTimestamp c1 = blockTimestamp c2" and "extcodesize c1 a = extcodesize c2 a"
      and "call_owner c1 a = call_owner c2 a"
      and "\<forall>ow. call_owner c1 a = Returns ow \<longrightarrow> extcodesize c1 ow = extcodesize c2 ow"
    unfolding r1 r2 using assms m [OF that(1,2)] o [OF that(2,3,4)]
    by simp
  have "isl (map_sum id fst (scamDetector_analyzeToken c1 s1 a))
      = isl (map_sum id fst (scamDetector_analyzeToken c2 s2 a))"
    if "extcodesize c1 a = extcodesize c2 a" and "call_owner c1 a = call_owner c2 a"
    unfolding r1 r2 using assms i [OF that]
    by (simp add: isl_map_sum)
  then have second: "isl (scamDetector_analyzeToken c1 s1 a)
      = isl (scamDetector_analyzeToken c2 s2 a)"
    if "extcodesize c1 a = extcodesize c2 a" and "call_owner c1 a = call_owner c2 a"
    using that by (simp add: isl_map_sum)
  have third: "hasBlacklist f1 = hasBlacklist f2 \<and> hasHighTax f1 = hasHighTax f2
      \<and> hasLiquidityDrain f1 = hasLiquidityDrain f2"
    if "scamDetector_analyzeToken c1 s1 a = Inr (f1, t1)"
      and "scamDetector_analyzeToken c2 s2 a = Inr (f2, t2)" for f1 t1 f2 t2
    using analyzeToken_address_flags [OF that(1)] analyzeToken_address_flags [OF that(2)] assms
    by simp
  from first second third show ?thesis
    by blast
qed

theorem flags_depend_on_chain_inputs_only_witness:
  "knownScams (detector_constructor deployer) token_A
     = knownScams (detector_constructor stranger) token_A
   \<and> trustedTokens (detector_constructor deployer) token_A
     = trustedTokens (detector_constructor stranger) token_A
   \<and> map_sum id fst (scamDetector_analyzeToken (bare_chain 1700000005)
        (detector_constructor deployer) token_A)
     = map_sum id fst (scamDetector_analyzeToken
        ((bare_chain 1700000005)\<lparr>call_name := (\<lambda>a. Returns ''Token'')\<rparr>)
        (detector_constructor stranger) token_A)
   \<and> (\<exists>f1 t1 f2 t2.
        scamDetector_analyzeToken (bare_chain 1700000005) (detector_constructor deployer)
          token_A = Inr (f1, t1)
        \<and> scamDetector_analyzeToken (bare_chain 1700000000) (detector_constructor stranger)
          token_A = Inr (f2, t2)
        \<and> hasBlacklist f1 = hasBlacklist f2 \<and> hasHighTax f1 = hasHighTax f2
        \<and> hasLiquidityDrain f1 = hasLiquidityDrain f2)"
proof -
  have k: "knownScams (detector_constructor deployer) token_A
      = knownScams (detector_constructor stranger) token_A"
    and t: "trustedTokens (detector_constructor deployer) token_A
      = trustedTokens (detector_constructor stranger) token_A"
    by (simp_all add: detector_constructor_def)
  have e: "map_sum id fst (scamDetector_analyzeToken (bare_chain 1700000005)
        (detector_constructor deployer) token_A)
     = map_sum id fst (scamDetector_analyzeToken
        ((bare_chain 1700000005)\<lparr>call_name := (\<lambda>a. Returns ''Token'')\<rparr>)
        (detector_constructor stranger) token_A)"
    using flags_depend_on_chain_inputs_only [OF k t, of "bare_chain 1700000005"
        "(bare_chain 1700000005)\<lparr>call_name := (\<lambda>a. Returns ''Token'')\<rparr>"]
    by simp
  obtain f1 t1 where r1: "scamDetector_analyzeToken (bare_chain 1700000005)
      (detector_constructor deployer) token_A = Inr (f1, t1)"
    using analyzeToken_heuristic_flags [OF token_A_nonzero no_lists_at_construction
        ownership_check_bare_chain]
    by blast
  obtain f2 t2 where r2: "scamDetector_analyzeToken (bare_chain 1700000000)
      (detector_constructor stranger) token_A = Inr (f2, t2)"
    using analyzeToken_heuristic_flags [OF token_A_nonzero no_lists_at_construction
        ownership_check_bare_chain]
    by blast
  from flags_depend_on_chain_inputs_only [OF k t, of "bare_chain 1700000005"
      "bare_chain 1700000000"] r1 r2
  have "hasBlacklist f1 = hasBlacklist f2 \<and> hasHighTax f1 = hasHighTax f2
      \<and> hasLiquidityDrain f1 = hasLiquidityDrain f2"
    by blast
  with k t e r1 r2 show ?thesis
    by blast
qed

section \<open>Properties of the TokenAnalyzer\<close>

subsection \<open>The two renderings of an address\<close>

lemma byte_of_widened_address:
  "(ucast (drop_bit k (ucast (a :: address) :: uint256)) :: byte) = ucast (drop_bit k a)"
  by (rule bit_word_eqI) (auto simp add: bit_simps dest: bit_imp_le_length)

lemma bytes32_of_address_eq:
  "bytes32_of_address a = replicate 12 0 @ packed_address a"
  by (simp add: bytes32_of_address_def packed_uint256_def packed_address_def replicate_numeral
      byte_of_widened_address)

text \<open>
  The loop of \<^verbatim>\<open>addressToString\<close> writes \<open>0x\<close> and the 40 hex digits of the 20 bytes of
  the address; the loop of \<^verbatim>\<open>addressToShortString\<close> writes the 6 hex digits of its
  first 3 bytes.
\<close>

lemma addressToString_hex:
  "addressToString a = ''0x'' @ hex_of_bytes (packed_address a)"
  by (simp add: addressToString_def bytes32_of_address_eq packed_address_def replicate_numeral
      list_update_Cons_numeral hex_of_bytes_def hex_digit_def alphabet_def Let_def)

lemma addressToShortString_hex:
  "addressToShortString a = hex_of_bytes (take 3 (packed_address a))"
  by (simp add: addressToShortString_def bytes32_of_address_eq packed_address_def
      replicate_numeral list_update_Cons_numeral hex_of_bytes_def hex_digit_def alphabet_def
      Let_def)

lemma length_short_hex: "length (hex_of_bytes (take 3 (packed_address a))) = 6"
  by (simp add: hex_of_bytes_def packed_address_def)

lemma hex_token_A:
  "hex_of_bytes (packed_address token_A) = ''5fbdb2315678afecb367f032d93f642f64180b4d''"
  "hex_of_bytes (take 3 (packed_address token_A)) = ''5fbdb2''"
  by (simp_all add: hex_of_bytes_def packed_address_def token_A_def hex_digit_def)

subsection \<open>Analysis of one token\<close>

lemma analyzeToken_reentered:
  assumes "reentrancyStatus s = ENTERED"
  shows "tokenAnalyzer_analyzeToken c s sender tokenAddress = Inl ReentrantCall"
  using assms by (simp add: tokenAnalyzer_analyzeToken_def nonReentrant_def)

lemma analyzeToken_leaves_guard_open:
  assumes "tokenAnalyzer_analyzeToken c s sender t = Inr (info, s')"
  shows "reentrancyStatus s' = NOT_ENTERED"
  using assms
  by (auto simp add: tokenAnalyzer_analyzeToken_def nonReentrant_def Let_def
      split: if_splits sum.splits)

text \<open>
  When the token holds code and each of the five reads reverts in it, every \<^verbatim>\<open>catch\<close>
  branch runs: the record has the hex rendering of the address as name, the hex
  rendering of its first 3 bytes (6 characters) as symbol, 18 decimals, the total
  supply \<open>10\<^sup>2\<^sup>4\<close>, the fixed owner and \<open>exists = true\<close>, and is stored.
\<close>

lemma analyzeToken_fallbacks:
  assumes "tokenAddress \<noteq> 0" and "reentrancyStatus s = NOT_ENTERED"
    and "extcodesize c tokenAddress \<noteq> 0"
    and "call_name c tokenAddress = Reverts" and "call_symbol c tokenAddress = Reverts"
    and "call_decimals c tokenAddress = Reverts" and "call_totalSupply c tokenAddress = Reverts"
    and "call_owner c tokenAddress = Reverts"
  shows "tokenAnalyzer_analyzeToken c s sender tokenAddress =
     Inr (\<lparr>name = addressToString tokenAddress, symbol = addressToShortString tokenAddress,
           decimals = 18, totalSupply = 1000000000000000000000000,
           owner = 0xf39Fd6e51aad88F6F4ce6aB8827279cffFb92266, exists = True\<rparr>,
          s\<lparr>reentrancyStatus := NOT_ENTERED,
            analyzedTokens := (analyzedTokens s)(tokenAddress :=
              \<lparr>name = addressToString tokenAddress, symbol = addressToShortString tokenAddress,
               decimals = 18, totalSupply = 1000000000000000000000000,
               owner = 0xf39Fd6e51aad88F6F4ce6aB8827279cffFb92266, exists = True\<rparr>),
            analyzerLog := analyzerLog s @
              [TokenAnalyzed tokenAddress sender (blockTimestamp c)]\<rparr>)"
  using assms
  by (simp add: tokenAnalyzer_analyzeToken_def nonReentrant_def Let_def no_TokenInfo_def
      try_call_def try_catch_def)

lemma analyzeToken_reverting_reads:
  assumes "tokenAddress \<noteq> 0" and "reentrancyStatus s = NOT_ENTERED"
    and "extcodesize c tokenAddress \<noteq> 0"
    and "call_name c tokenAddress = Reverts" and "call_symbol c tokenAddress = Reverts"
    and "call_decimals c tokenAddress = Reverts" and "call_totalSupply c tokenAddress = Reverts"
    and "call_owner c tokenAddress = Reverts"
  shows "\<exists>info s'. tokenAnalyzer_analyzeToken c s sender tokenAddress = Inr (info, s')
     \<and> name info = ''0x'' @ hex_of_bytes (packed_address tokenAddress)
     \<and> symbol info = hex_of_bytes (take 3 (packed_address tokenAddress))
     \<and> length (symbol info) = 6
     \<and> decimals info = 18
     \<and> unat (totalSupply info) = 1000000 * 10 ^ 18
     \<and> owner info = 0xf39Fd6e51aad88F6F4ce6aB8827279cffFb92266
     \<and> exists info
     \<and> analyzedTokens s' tokenAddress = info"
  by (simp add: analyzeToken_fallbacks [OF assms] addressToString_hex addressToShortString_hex
      length_short_hex)

text \<open>The first read of a token without code already reverts the call.\<close>

lemma analyzeToken_without_code:
  assumes "tokenAddress \<noteq> 0" and "reentrancyStatus s = NOT_ENTERED"
    and "extcodesize c tokenAddress = 0"
  shows "tokenAnalyzer_analyzeToken c s sender tokenAddress = Inl UncaughtCallFailure"
  using assms
  by (simp add: tokenAnalyzer_analyzeToken_def nonReentrant_def Let_def try_call_def
      try_catch_def)

lemma analyzeToken_token_A:
  "map_sum id fst (tokenAnalyzer_analyzeToken (bare_chain t)
       (analyzer_constructor deployer analyzer_address) sender token_A)
     = Inr \<lparr>name = ''0x5fbdb2315678afecb367f032d93f642f64180b4d'', symbol = ''5fbdb2'',
            decimals = 18, totalSupply = 1000000000000000000000000, owner = deployer,
            exists = True\<rparr>"
proof -
  have n: "reentrancyStatus (analyzer_constructor deployer analyzer_address) = NOT_ENTERED"
    by (simp add: analyzer_constructor_def)
  have x: "extcodesize (bare_chain t) token_A \<noteq> 0"
    by (simp add: bare_chain_def)
  have r: "call_name (bare_chain t) token_A = Reverts"
    "call_symbol (bare_chain t) token_A = Reverts"
    "call_decimals (bare_chain t) token_A = Reverts"
    "call_totalSupply (bare_chain t) token_A = Reverts"
    "call_owner (bare_chain t) token_A = Reverts"
    by (simp_all add: bare_chain_def)
  note f = analyzeToken_fallbacks [OF token_A_nonzero n x r]
  show ?thesis
    unfolding f by (simp add: addressToString_hex addressToShortString_hex hex_token_A
        deployer_def)
qed

text \<open>
  Claim C6 says that for every address whose five reads all fail, \<^verbatim>\<open>analyzeToken\<close>
  returns the record of fallbacks. The code does so for a contract that reverts on the
  reads (lemma \<open>analyzeToken_reverting_reads\<close>), but a read that fails outside the callee
  escapes its \<^verbatim>\<open>catch\<close> and reverts the whole call. On \<open>stranger\<close>, an account without
  code, each of the five reads fails so, and \<^verbatim>\<open>analyzeToken\<close> returns no record and
  stores nothing; the same happens on \<open>token_A\<close>, which holds code, when its answer to
  \<^verbatim>\<open>name()\<close> does not decode.
\<close>

theorem analyzeToken_without_code_reverts:
  "stranger \<noteq> 0
   \<and> extcodesize (bare_chain 1700000000) stranger = 0
   \<and> try_call (bare_chain 1700000000) stranger (call_name (bare_chain 1700000000) stranger)
       = Uncaught
   \<and> try_call (bare_chain 1700000000) stranger (call_symbol (bare_chain 1700000000) stranger)
       = Uncaught
   \<and> try_call (bare_chain 1700000000) stranger (call_decimals (bare_chain 1700000000) stranger)
       = Uncaught
   \<and> try_call (bare_chain 1700000000) stranger
        (call_totalSupply (bare_chain 1700000000) stranger) = Uncaught
   \<and> try_call (bare_chain 1700000000) stranger (call_owner (bare_chain 1700000000) stranger)
       = Uncaught
   \<and> tokenAnalyzer_analyzeToken (bare_chain 1700000000)
        (analyzer_constructor deployer analyzer_address) deployer stranger
       = Inl UncaughtCallFailure
   \<and> analyzedTokens (state_after (analyzer_constructor deployer analyzer_address)
        (tokenAnalyzer_analyzeToken (bare_chain 1700000000)
           (analyzer_constructor deployer analyzer_address) deployer stranger)) stranger
       = no_TokenInfo
   \<and> extcodesize (bare_chain 1700000000) token_A = 2048
   \<and> tokenAnalyzer_analyzeToken
        ((bare_chain 1700000000)\<lparr>call_name := (\<lambda>a. Malformed)\<rparr>)
        (analyzer_constructor deployer analyzer_address) deployer token_A
       = Inl UncaughtCallFailure"
proof -
  have z: "stranger \<noteq> 0"
    by (simp add: stranger_def)
  have x: "extcodesize (bare_chain 1700000000) stranger = 0"
    by (simp add: bare_chain_def stranger_def token_A_def)
  have n: "reentrancyStatus (analyzer_constructor deployer analyzer_address) = NOT_ENTERED"
    by (simp add: analyzer_constructor_def)
  have u: "try_call (bare_chain 1700000000) stranger
        (call_name (bare_chain 1700000000) stranger) = Uncaught"
    "try_call (bare_chain 1700000000) stranger
        (call_symbol (bare_chain 1700000000) stranger) = Uncaught"
    "try_call (bare_chain 1700000000) stranger
        (call_decimals (bare_chain 1700000000) stranger) = Uncaught"
    "try_call (bare_chain 1700000000) stranger
        (call_totalSupply (bare_chain 1700000000) stranger) = Uncaught"
    "try_call (bare_chain 1700000000) stranger
        (call_owner (bare_chain 1700000000) stranger) = Uncaught"
    using x by (simp_all add: try_call_def)
  have r: "tokenAnalyzer_analyzeToken (bare_chain 1700000000)
        (analyzer_constructor deployer analyzer_address) deployer stranger
       = Inl UncaughtCallFailure"
    by (rule analyzeToken_without_code [OF z n x])
  have y: "extcodesize (bare_chain 1700000000) token_A = 2048"
    by (simp add: bare_chain_def)
  have m: "tokenAnalyzer_analyzeToken
        ((bare_chain 1700000000)\<lparr>call_name := (\<lambda>a. Malformed)\<rparr>)
        (analyzer_constructor deployer analyzer_address) deployer token_A
       = Inl UncaughtCallFailure"
    using token_A_nonzero n
    by (simp add: tokenAnalyzer_analyzeToken_def nonReentrant_def Let_def try_call_def
        try_catch_def bare_chain_def)
  have t: "analyzedTokens (state_after (analyzer_constructor deployer analyzer_address)
        (tokenAnalyzer_analyzeToken (bare_chain 1700000000)
           (analyzer_constructor deployer analyzer_address) deployer stranger)) stranger
       = no_TokenInfo"
    unfolding r by (simp add: state_after_def analyzer_constructor_def)
  from z x u r t y m show ?thesis
    by simp
qed

text \<open>
  Claim C10: both \<^verbatim>\<open>analyzeToken\<close> entry points reject the zero address with the revert
  \<open>Invalid token address\<close>, a \<open>ValidationError\<close>, and leave the state as it was: nothing
  is stored and no event is emitted. For the TokenAnalyzer this is the call from
  outside, with the reentrancy guard not set.
\<close>

theorem analyzeToken_rejects_zero_address:
  "scamDetector_analyzeToken c s 0 = Inl InvalidTokenAddress
   \<and> state_after s (scamDetector_analyzeToken c s 0) = s
   \<and> (reentrancyStatus t = NOT_ENTERED \<longrightarrow>
        tokenAnalyzer_analyzeToken c t sender 0 = Inl InvalidTokenAddress
        \<and> state_after t (tokenAnalyzer_analyzeToken c t sender 0) = t)
   \<and> error_class_of InvalidTokenAddress = ValidationError
   \<and> revert_message InvalidTokenAddress = ''Invalid token address''"
  by (simp add: analyzeToken_zero state_after_def tokenAnalyzer_analyzeToken_def
      nonReentrant_def)

theorem analyzeToken_rejects_zero_address_witness:
  "reentrancyStatus (analyzer_constructor deployer analyzer_address) = NOT_ENTERED
   \<and> tokenAnalyzer_analyzeToken (bare_chain 1700000000)
        (analyzer_constructor deployer analyzer_address) stranger 0 = Inl InvalidTokenAddress
   \<and> analyzedTokens (state_after (analyzer_constructor deployer analyzer_address)
        (tokenAnalyzer_analyzeToken (bare_chain 1700000000)
           (analyzer_constructor deployer analyzer_address) stranger 0)) 0 = no_TokenInfo
   \<and> analyzerLog (state_after (analyzer_constructor deployer analyzer_address)
        (tokenAnalyzer_analyzeToken (bare_chain 1700000000)
           (analyzer_constructor deployer analyzer_address) stranger 0)) = []
   \<and> scamDetector_analyzeToken (bare_chain 1700000000) (detector_constructor deployer) 0
        = Inl InvalidTokenAddress"
proof -
  have n: "reentrancyStatus (analyzer_constructor deployer analyzer_address) = NOT_ENTERED"
    by (simp add: analyzer_constructor_def)
  show ?thesis
    using analyzeToken_rejects_zero_address [of "bare_chain 1700000000"
        "detector_constructor deployer" "analyzer_constructor deployer analyzer_address"
        stranger] n
    by (simp add: state_after_def analyzer_constructor_def)
qed

subsection \<open>Analysis of a batch\<close>

lemma batchAnalyze_loop_entered:
  assumes "reentrancyStatus s = ENTERED"
  shows "batchAnalyze_loop c s tokens = (if tokens = [] then Inr ([], s) else Inl ReentrantCall)"
  using assms by (cases tokens) (simp_all add: analyzeToken_reentered)

text \<open>Whenever the loop returns, it returns one record for each address.\<close>

lemma batchAnalyze_loop_length:
  "batchAnalyze_loop c s tokens = Inr (results, s') \<Longrightarrow> length results = length tokens"
proof (induction tokens arbitrary: s results)
  case Nil
  then show ?case by simp
next
  case (Cons t tokens)
  then show ?case
    by (auto split: sum.splits prod.splits)
qed

text \<open>
  The batch, by cases: the loop runs with the guard set, so its first call of
  \<^verbatim>\<open>analyzeToken\<close> is refused, and only the empty batch gets through.
\<close>

lemma batchAnalyze_eq:
  "batchAnalyze c s sender tokens =
     (if reentrancyStatus s = ENTERED then Inl ReentrantCall
      else if 10 < length tokens then Inl TooManyTokens
      else if tokens = [] then Inr ([], s)
      else Inl ReentrantCall)"
proof (cases "reentrancyStatus s")
  case NOT_ENTERED
  have e: "s\<lparr>reentrancyStatus := NOT_ENTERED\<rparr> = s"
    using NOT_ENTERED by simp
  show ?thesis
    using NOT_ENTERED
    by (simp add: batchAnalyze_def nonReentrant_def batchAnalyze_loop_entered not_le e)
next
  case ENTERED
  then show ?thesis
    by (simp add: batchAnalyze_def nonReentrant_def)
qed

lemma batchAnalyze_too_many:
  assumes "reentrancyStatus s = NOT_ENTERED" and "10 < length tokens"
  shows "batchAnalyze c s sender tokens = Inl TooManyTokens"
  using assms by (simp add: batchAnalyze_eq)

text \<open>
  Claim C5 says that \<^verbatim>\<open>batchAnalyze\<close> fails on more than 10 addresses and on at most 10
  returns one record for each address, in input order. The length check is as claimed,
  but no record is ever returned: \<^verbatim>\<open>batchAnalyze\<close> holds the reentrancy guard while it
  calls \<^verbatim>\<open>this.analyzeToken\<close>, which is \<^verbatim>\<open>nonReentrant\<close> on the same guard. On the batch
  of the single address \<open>token_A\<close>, which \<^verbatim>\<open>analyzeToken\<close> alone turns into a record, the
  batch reverts with the guard's message.
\<close>

theorem batchAnalyze_single_token_reverts:
  "map_sum id fst (tokenAnalyzer_analyzeToken (bare_chain 1700000000)
       (analyzer_constructor deployer analyzer_address) stranger token_A)
     = Inr \<lparr>name = ''0x5fbdb2315678afecb367f032d93f642f64180b4d'', symbol = ''5fbdb2'',
            decimals = 18, totalSupply = 1000000000000000000000000, owner = deployer,
            exists = True\<rparr>
   \<and> length [token_A] \<le> 10
   \<and> batchAnalyze (bare_chain 1700000000) (analyzer_constructor deployer analyzer_address)
        stranger [token_A] = Inl ReentrantCall
   \<and> revert_message ReentrantCall = ''ReentrancyGuard: reentrant call''
   \<and> batchAnalyze (bare_chain 1700000000) (analyzer_constructor deployer analyzer_address)
        stranger (replicate 11 token_A) = Inl TooManyTokens"
proof -
  have n: "reentrancyStatus (analyzer_constructor deployer analyzer_address) = NOT_ENTERED"
    by (simp add: analyzer_constructor_def)
  have b: "batchAnalyze (bare_chain 1700000000) (analyzer_constructor deployer analyzer_address)
        stranger [token_A] = Inl ReentrantCall"
    using n by (simp add: batchAnalyze_eq)
  have m: "batchAnalyze (bare_chain 1700000000) (analyzer_constructor deployer analyzer_address)
        stranger (replicate 11 token_A) = Inl TooManyTokens"
    using n by (simp add: batchAnalyze_too_many)
  from b m show ?thesis
    by (simp add: analyzeToken_token_A)
qed

subsection \<open>The risk score of the security flags\<close>

text \<open>
  Claim C9: \<^verbatim>\<open>calculateRiskScore\<close> is 20 for an owner that has not renounced, plus 25
  for mint, 15 for pause, 30 for blacklist and 10 for no burn; the weights sum to 100,
  so the score is at most 100 for every combination of the six flags, and the
  combination that takes every weight scores exactly 100.
\<close>

theorem calculateRiskScore_at_most_100:
  "unat (calculateRiskScore s a) =
     20 * of_bool (hasOwner (securityAnalysis s a) \<and> \<not> ownershipRenounced (securityAnalysis s a))
     + 25 * of_bool (hasMintFunction (securityAnalysis s a))
     + 15 * of_bool (hasPauseFunction (securityAnalysis s a))
     + 30 * of_bool (hasBlacklistFunction (securityAnalysis s a))
     + 10 * of_bool (\<not> hasBurnFunction (securityAnalysis s a))
   \<and> unat (calculateRiskScore s a) \<le> 100
   \<and> (20 :: nat) + 25 + 15 + 30 + 10 = 100
   \<and> (securityAnalysis s a = risky_SecurityFlags \<longrightarrow> calculateRiskScore s a = 100)"
  by (simp add: calculateRiskScore_def Let_def risky_SecurityFlags_def)

theorem calculateRiskScore_at_most_100_witness:
  "securityAnalysis
     (state_after (analyzer_constructor deployer analyzer_address)
        (setSecurityFlags (analyzer_constructor deployer analyzer_address) deployer token_A
           risky_SecurityFlags)) token_A = risky_SecurityFlags
   \<and> calculateRiskScore
     (state_after (analyzer_constructor deployer analyzer_address)
        (setSecurityFlags (analyzer_constructor deployer analyzer_address) deployer token_A
           risky_SecurityFlags)) token_A = 100
   \<and> calculateRiskScore (analyzer_constructor deployer analyzer_address) token_A = 10"
proof -
  have f: "securityAnalysis
     (state_after (analyzer_constructor deployer analyzer_address)
        (setSecurityFlags (analyzer_constructor deployer analyzer_address) deployer token_A
           risky_SecurityFlags)) token_A = risky_SecurityFlags"
    by (simp add: setSecurityFlags_def onlyOwner_def state_after_def analyzer_constructor_def)
  have z: "unat (calculateRiskScore (analyzer_constructor deployer analyzer_address) token_A) = 10"
    using calculateRiskScore_at_most_100 [of "analyzer_constructor deployer analyzer_address"
        token_A]
    by (simp add: analyzer_constructor_def no_SecurityFlags_def)
  then have "calculateRiskScore (analyzer_constructor deployer analyzer_address) token_A = 10"
    by (simp add: word_unat_eq_iff)
  then show ?thesis
    using calculateRiskScore_at_most_100 [of
        "state_after (analyzer_constructor deployer analyzer_address)
          (setSecurityFlags (analyzer_constructor deployer analyzer_address) deployer token_A
             risky_SecurityFlags)" token_A] f
    by simp
qed

end
